theory Spec2Isabelle
  imports Complex_Main "HOL-Library.Sublist"
begin

section \<open>Python values and strings\<close>

text \<open>
  Python strings are modelled as \<^typ>\<open>string\<close>: a character of the model is a code
  point below 256, and every character the notebook's own literals use is ASCII.
  Exceptions are values of \<open>error\<close>: the kinds the specification names, and
  \<open>OtherError\<close> for any other exception a collaborator raises.
\<close>

datatype error =
    InvalidConfig
  | EmbeddingError
  | EmptyStoreError
  | DegenerateVectorError
  | MissingPlaceholderError string
  | GenerationError
  | OtherError string

text \<open>The values that travel through keyword arguments and template parameters.\<close>

datatype pyval = VStr string | VInt int | VBool bool | VNone

definition digit_char :: "nat \<Rightarrow> char" where
  "digit_char d = ''0123456789'' ! d"

text \<open>\<^verbatim>\<open>str(n)\<close> for a natural number: decimal digits, no leading zero.\<close>

function str_nat :: "nat \<Rightarrow> string" where
  "str_nat n = (if n < 10 then [digit_char n] else str_nat (n div 10) @ [digit_char (n mod 10)])"
  by pat_completeness auto
termination
  by (relation "measure (\<lambda>n. n)") auto

declare str_nat.simps [simp del]

definition str_int :: "int \<Rightarrow> string" where
  "str_int i = (if i < 0 then CHR ''-'' # str_nat (nat (- i)) else str_nat (nat i))"

text \<open>\<^verbatim>\<open>str(v)\<close>, which is what \<^verbatim>\<open>str.format\<close> writes for a replacement field.\<close>

fun py_str :: "pyval \<Rightarrow> string" where
  "py_str (VStr s) = s"
| "py_str (VInt i) = str_int i"
| "py_str (VBool b) = (if b then ''True'' else ''False'')"
| "py_str VNone = ''None''"

text \<open>
  \<^verbatim>\<open>str.isspace\<close> on the code points below 256: tab, line feed, vertical tab, form
  feed, carriage return, the four separators 0x1C..0x1F, the space, the next-line
  control 0x85 and the no-break space 0xA0. These are the characters \<^verbatim>\<open>strip()\<close>
  removes.
\<close>

definition is_space :: "char \<Rightarrow> bool" where
  "is_space c = (c \<in> set [CHR 0x09, CHR 0x0A, CHR 0x0B, CHR 0x0C, CHR 0x0D,
                             CHR 0x1C, CHR 0x1D, CHR 0x1E, CHR 0x1F, CHR 0x20,
                             CHR 0x85, CHR 0xA0])"

text \<open>\<^verbatim>\<open>s.strip()\<close>: whitespace removed from both ends.\<close>

definition strip :: "string \<Rightarrow> string" where
  "strip s = rev (dropWhile is_space (rev (dropWhile is_space s)))"

text \<open>\<^verbatim>\<open>sep.join(xs)\<close>.\<close>

fun join :: "string \<Rightarrow> string list \<Rightarrow> string" where
  "join sep [] = []"
| "join sep [x] = x"
| "join sep (x # y # ys) = x @ sep @ join sep (y # ys)"

subsection \<open>Formatting a score with \<^verbatim>\<open>:.3f\<close>\<close>

text \<open>
  A similarity score is modelled as the exact real number the float stands for (NaN, the
  infinities and the negative zero are outside the model). \<^verbatim>\<open>f"{score:.3f}"\<close> rounds
  the exact value to three decimals, a tie going to the even neighbour, and writes the
  sign, the integer part, a point and exactly three digits.
\<close>

definition round_half_even :: "real \<Rightarrow> int" where
  "round_half_even x =
     (let f = \<lfloor>x\<rfloor>; d = x - of_int f
      in if d < 1 / 2 then f else if 1 / 2 < d then f + 1 else if even f then f else f + 1)"

definition pad3 :: "nat \<Rightarrow> string" where
  "pad3 n = [digit_char (n div 100), digit_char (n div 10 mod 10), digit_char (n mod 10)]"

definition format_3f :: "real \<Rightarrow> string" where
  "format_3f x =
     (let m = nat (round_half_even (\<bar>x\<bar> * 1000))
      in (if x < 0 then ''-'' else '''') @ str_nat (m div 1000) @ ''.'' @ pad3 (m mod 1000))"

subsection \<open>Decimal notation, read back\<close>

text \<open>
  What a written number denotes, defined on the characters themselves and without
  \<open>str_nat\<close> or \<open>format_3f\<close>: the results of both are checked against it. The value
  of a digit character:
\<close>

definition digit_value :: "char \<Rightarrow> nat option" where
  "digit_value =
     map_of [(CHR ''0'', 0), (CHR ''1'', 1), (CHR ''2'', 2), (CHR ''3'', 3), (CHR ''4'', 4),
             (CHR ''5'', 5), (CHR ''6'', 6), (CHR ''7'', 7), (CHR ''8'', 8), (CHR ''9'', 9)]"

text \<open>The number a string of digits denotes, read left to right from \<open>acc\<close>.\<close>

fun read_digits :: "nat \<Rightarrow> string \<Rightarrow> nat option" where
  "read_digits acc [] = Some acc"
| "read_digits acc (c # cs) =
     (case digit_value c of None \<Rightarrow> None | Some d \<Rightarrow> read_digits (10 * acc + d) cs)"

text \<open>
  The natural number a string denotes in the notation of \<^verbatim>\<open>str\<close>: digits only, at
  least one, no leading zero except in \<open>0\<close> itself.
\<close>

definition reads_nat :: "string \<Rightarrow> nat option" where
  "reads_nat s =
     (if s = [] \<or> (hd s = CHR ''0'' \<and> s \<noteq> ''0'') then None else read_digits 0 s)"

text \<open>
  A number written with three decimals: an optional minus sign, a natural number, a
  point, and exactly three digits. The result is the sign and the number of
  thousandths.
\<close>

definition reads_3f :: "string \<Rightarrow> (bool \<times> nat) option" where
  "reads_3f s =
     (let negative = (s \<noteq> [] \<and> hd s = CHR ''-'');
          body = (if negative then tl s else s);
          n = length body
      in if n < 5 \<or> body ! (n - 4) \<noteq> CHR ''.'' then None
         else (case reads_nat (take (n - 4) body) of
                 None \<Rightarrow> None
               | Some whole \<Rightarrow>
                   (case read_digits 0 (drop (n - 3) body) of
                      None \<Rightarrow> None
                    | Some thousandths \<Rightarrow> Some (negative, 1000 * whole + thousandths))))"

text \<open>
  \<open>n\<close> is the natural number nearest to \<open>y\<close>, the even one of the two when \<open>y\<close>
  lies halfway.
\<close>

definition nearest_even :: "real \<Rightarrow> nat \<Rightarrow> bool" where
  "nearest_even y n = (\<bar>y - real n\<bar> < 1 / 2 \<or> (\<bar>y - real n\<bar> = 1 / 2 \<and> even n))"

text \<open>
  The string \<open>s\<close> shows \<open>x\<close> to three decimal places: it carries a minus sign exactly
  when \<open>x\<close> is negative, and its thousandths are the magnitude of \<open>x\<close> rounded to the
  nearest thousandth, a tie going to the even neighbour.
\<close>

definition shows_3_decimals :: "real \<Rightarrow> string \<Rightarrow> bool" where
  "shows_3_decimals x s =
     (case reads_3f s of
        None \<Rightarrow> False
      | Some (negative, n) \<Rightarrow> negative = (x < 0) \<and> nearest_even (\<bar>x\<bar> * 1000) n)"

section \<open>Prompt templates\<close>

text \<open>
  Modelled from the spec: the classes \<^verbatim>\<open>SystemRolePrompt\<close> and \<^verbatim>\<open>UserRolePrompt\<close> of
  the package \<^verbatim>\<open>aimakerspace.openai_utils.prompts\<close>, which the notebook imports and
  which is not among the sources. A prompt holds a template string, defaults for
  placeholders and a strictness flag (section 3).
\<close>

record prompt =
  template :: string
  strict :: bool
  defaults :: "string \<rightharpoonup> pyval"

text \<open>
  Modelled from the spec: what a template is made of, a literal character or a
  placeholder with its name.
\<close>

datatype segment = Lit char | Hole string

text \<open>
  Modelled from the spec: the placeholders of a template. The notebook writes a
  placeholder as a name in braces; the scan reads the template once, left to right.
  The first argument is the name being read when the scan is inside braces. A brace
  that is never closed stays literal text.
\<close>

fun scan :: "string option \<Rightarrow> string \<Rightarrow> segment list" where
  "scan None [] = []"
| "scan (Some n) [] = map Lit (CHR ''{'' # n)"
| "scan None (c # cs) = (if c = CHR ''{'' then scan (Some []) cs else Lit c # scan None cs)"
| "scan (Some n) (c # cs) =
     (if c = CHR ''}'' then Hole n # scan None cs else scan (Some (n @ [c])) cs)"

text \<open>
  Modelled from the spec: the value of one placeholder in \<^verbatim>\<open>create_message\<close>
  (section 4.3). A placeholder takes the value supplied in \<open>params\<close>, else its
  configured default; with neither, strict mode fails with \<open>MissingPlaceholderError\<close>
  and non-strict mode writes the empty string.
\<close>

fun resolve :: "prompt \<Rightarrow> (string \<rightharpoonup> pyval) \<Rightarrow> segment \<Rightarrow> error + string" where
  "resolve p params (Lit c) = Inr [c]"
| "resolve p params (Hole n) =
     (case params n of
        Some v \<Rightarrow> Inr (py_str v)
      | None \<Rightarrow>
          (case defaults p n of
             Some v \<Rightarrow> Inr (py_str v)
           | None \<Rightarrow> if strict p then Inl (MissingPlaceholderError n) else Inr ''''))"

text \<open>
  Modelled from the spec: the substitution of \<^verbatim>\<open>create_message\<close> (section 4.3), left
  to right; the first placeholder that cannot be resolved ends it with its error.
  Substituted text is not scanned again.
\<close>

fun render :: "prompt \<Rightarrow> (string \<rightharpoonup> pyval) \<Rightarrow> segment list \<Rightarrow> error + string" where
  "render p params [] = Inr ''''"
| "render p params (seg # segs) =
     (case resolve p params seg of
        Inl e \<Rightarrow> Inl e
      | Inr s \<Rightarrow> (case render p params segs of Inl e \<Rightarrow> Inl e | Inr r \<Rightarrow> Inr (s @ r)))"

text \<open>
  Modelled from the spec: \<^verbatim>\<open>PromptTemplate.create_message\<close> (section 4.3). Keys of
  \<open>params\<close> that the template does not name are never looked at.
\<close>

definition create_message :: "prompt \<Rightarrow> (string \<rightharpoonup> pyval) \<Rightarrow> error + string" where
  "create_message p params = render p params (scan None (template p))"

subsection \<open>The two templates of the notebook\<close>

text \<open>
  The strings \<^verbatim>\<open>RAG_SYSTEM_TEMPLATE\<close> and \<^verbatim>\<open>RAG_USER_TEMPLATE\<close> and the two prompt
  objects built from them, both strict, each with its defaults.
\<close>

definition RAG_SYSTEM_TEMPLATE :: string where
  \<open>RAG_SYSTEM_TEMPLATE =
    ''You are a knowledgeable assistant that answers questions based strictly on provided context.\<newline>'' @
    ''\<newline>'' @
    ''Instructions:\<newline>'' @
    ''- Only answer questions using information from the provided context\<newline>'' @
    ''- If the context doesn't contain relevant information, respond with "I don't know"\<newline>'' @
    ''- Be accurate and cite specific parts of the context when possible\<newline>'' @
    ''- Keep responses {response_style} and {response_length}\<newline>'' @
    ''- Only use the provided context. Do not use external knowledge.\<newline>'' @
    ''- Only provide answers when you are confident the context supports your response.''\<close>

definition RAG_USER_TEMPLATE :: string where
  "RAG_USER_TEMPLATE =
    ''Context Information:\<newline>'' @
    ''{context}\<newline>'' @
    ''\<newline>'' @
    ''Number of relevant sources found: {context_count}\<newline>'' @
    ''{similarity_scores}\<newline>'' @
    ''\<newline>'' @
    ''Question: {user_query}\<newline>'' @
    ''\<newline>'' @
    ''Please provide your answer based solely on the context above.''"

definition rag_system_prompt :: prompt where
  "rag_system_prompt =
     \<lparr>template = RAG_SYSTEM_TEMPLATE, strict = True,
      defaults = [''response_style'' \<mapsto> VStr ''simple'', ''response_length'' \<mapsto> VStr ''short'']\<rparr>"

definition rag_user_prompt :: prompt where
  "rag_user_prompt =
     \<lparr>template = RAG_USER_TEMPLATE, strict = True,
      defaults = [''context_count'' \<mapsto> VStr '''', ''similarity_scores'' \<mapsto> VStr '''']\<rparr>"

section \<open>The retrieval pipeline\<close>

text \<open>
  \<^verbatim>\<open>class RetrievalAugmentedQAPipeline\<close>. The two collaborators are fields of the
  object: \<open>llm\<close> stands for \<^verbatim>\<open>self.llm.run\<close> and \<open>vector_db_retriever\<close> for
  \<^verbatim>\<open>self.vector_db_retriever.search_by_text\<close>. Each either raises (\<open>Inl\<close>) or returns.
  A retrieved item is the pair \<^verbatim>\<open>(context, score)\<close> the loop of \<^verbatim>\<open>run_pipeline\<close> unpacks.
\<close>

type_synonym scored_chunk = "string \<times> real"

record pipeline =
  llm :: "string list \<Rightarrow> error + string"
  vector_db_retriever :: "string \<Rightarrow> int \<Rightarrow> error + scored_chunk list"
  response_style :: string
  include_scores :: bool

record prompts =
  system :: string
  user :: string

text \<open>The dictionary \<^verbatim>\<open>run_pipeline\<close> returns; its key \<^verbatim>\<open>"context"\<close> is the field \<open>context_list\<close>.\<close>

record pipeline_result =
  response :: string
  context_list :: "scored_chunk list"
  context_count :: int
  similarity_scores :: "string list option"
  prompts_used :: prompts

text \<open>The calls a run makes to its collaborators, in the order it makes them.\<close>

datatype event = SearchByText string int | LlmRun "string list"

text \<open>
  The body of the \<^verbatim>\<open>for\<close> loop: one step takes \<^verbatim>\<open>(i, (context, score))\<close> and extends
  \<^verbatim>\<open>context_prompt\<close> and \<^verbatim>\<open>similarity_scores\<close>.
\<close>

fun loop_body :: "string \<times> string list \<Rightarrow> nat \<times> scored_chunk \<Rightarrow> string \<times> string list" where
  "loop_body (context_prompt, similarity_scores') (i, (context, score)) =
     (context_prompt @ ''[Source '' @ str_nat i @ '']: '' @ context @ ''\<newline>\<newline>'',
      similarity_scores' @ [''Source '' @ str_nat i @ '': '' @ format_3f score])"

definition run_pipeline ::
  "pipeline \<Rightarrow> string \<Rightarrow> int \<Rightarrow> (string \<rightharpoonup> pyval) \<Rightarrow> event list
     \<Rightarrow> (error + pipeline_result) \<times> event list" where
  "run_pipeline self user_query k system_kwargs tr =
     (let tr1 = tr @ [SearchByText user_query k] in
      case vector_db_retriever self user_query k of
        Inl e \<Rightarrow> (Inl e, tr1)
      | Inr context_list' \<Rightarrow>
          (case foldl loop_body ('''', []) (enumerate 1 context_list') of
             (context_prompt, similarity_scores') \<Rightarrow>
               let system_params =
                     [''response_style'' \<mapsto> VStr (response_style self),
                      ''response_length'' \<mapsto>
                         (case system_kwargs ''response_length'' of
                            Some v \<Rightarrow> v
                          | None \<Rightarrow> VStr ''detailed'')]
               in
               (case create_message rag_system_prompt system_params of
                  Inl e \<Rightarrow> (Inl e, tr1)
                | Inr formatted_system_prompt \<Rightarrow>
                    let user_params =
                          [''user_query'' \<mapsto> VStr user_query,
                           ''context'' \<mapsto> VStr (strip context_prompt),
                           ''context_count'' \<mapsto> VInt (int (length context_list')),
                           ''similarity_scores'' \<mapsto>
                              VStr (if include_scores self
                                    then ''Relevance scores: '' @ join '', '' similarity_scores'
                                    else '''')]
                    in
                    (case create_message rag_user_prompt user_params of
                       Inl e \<Rightarrow> (Inl e, tr1)
                     | Inr formatted_user_prompt \<Rightarrow>
                         let tr2 = tr1 @ [LlmRun [formatted_system_prompt, formatted_user_prompt]] in
                         (case llm self [formatted_system_prompt, formatted_user_prompt] of
                            Inl e \<Rightarrow> (Inl e, tr2)
                          | Inr response' \<Rightarrow>
                              (Inr \<lparr>response = response',
                                    context_list = context_list',
                                    context_count = int (length context_list'),
                                    similarity_scores =
                                      (if include_scores self then Some similarity_scores' else None),
                                    prompts_used =
                                      \<lparr>system = formatted_system_prompt,
                                       user = formatted_user_prompt\<rparr>\<rparr>,
                               tr2))))))"

text \<open>The signature's default: \<^verbatim>\<open>k: int = 4\<close>.\<close>

definition run_pipeline_call ::
  "pipeline \<Rightarrow> string \<Rightarrow> int option \<Rightarrow> (string \<rightharpoonup> pyval) \<Rightarrow> event list
     \<Rightarrow> (error + pipeline_result) \<times> event list" where
  "run_pipeline_call self user_query k system_kwargs tr =
     run_pipeline self user_query (case k of None \<Rightarrow> 4 | Some k' \<Rightarrow> k') system_kwargs tr"

subsection \<open>What the two rendered messages are\<close>

text \<open>
  Closed forms of the rendered messages, written from the specification's steps (2) to
  (4): they are compared with what \<open>run_pipeline\<close> computes.
\<close>

definition system_text :: "string \<Rightarrow> string \<Rightarrow> string" where
  \<open>system_text style len =
    ''You are a knowledgeable assistant that answers questions based strictly on provided context.\<newline>'' @
    ''\<newline>'' @
    ''Instructions:\<newline>'' @
    ''- Only answer questions using information from the provided context\<newline>'' @
    ''- If the context doesn't contain relevant information, respond with "I don't know"\<newline>'' @
    ''- Be accurate and cite specific parts of the context when possible\<newline>'' @
    ''- Keep responses '' @ style @ '' and '' @ len @ ''\<newline>'' @
    ''- Only use the provided context. Do not use external knowledge.\<newline>'' @
    ''- Only provide answers when you are confident the context supports your response.''\<close>

definition user_text :: "string \<Rightarrow> string \<Rightarrow> string \<Rightarrow> string \<Rightarrow> string" where
  "user_text block count scores query =
    ''Context Information:\<newline>'' @
    block @ ''\<newline>'' @
    ''\<newline>'' @
    ''Number of relevant sources found: '' @ count @ ''\<newline>'' @
    scores @ ''\<newline>'' @
    ''\<newline>'' @
    ''Question: '' @ query @ ''\<newline>'' @
    ''\<newline>'' @
    ''Please provide your answer based solely on the context above.''"

definition response_length_of :: "(string \<rightharpoonup> pyval) \<Rightarrow> string" where
  "response_length_of system_kwargs =
     (case system_kwargs ''response_length'' of Some v \<Rightarrow> py_str v | None \<Rightarrow> ''detailed'')"

definition source_entry :: "nat \<times> scored_chunk \<Rightarrow> string" where
  "source_entry x = ''[Source '' @ str_nat (fst x) @ '']: '' @ fst (snd x)"

definition score_entry :: "nat \<times> scored_chunk \<Rightarrow> string" where
  "score_entry x = ''Source '' @ str_nat (fst x) @ '': '' @ format_3f (snd (snd x))"

text \<open>The context block before stripping: every entry is followed by a blank line.\<close>

definition context_block :: "scored_chunk list \<Rightarrow> string" where
  "context_block cs = concat (map (\<lambda>x. source_entry x @ ''\<newline>\<newline>'') (enumerate 1 cs))"

definition score_strings :: "scored_chunk list \<Rightarrow> string list" where
  "score_strings cs = map score_entry (enumerate 1 cs)"

definition scores_line :: "bool \<Rightarrow> scored_chunk list \<Rightarrow> string" where
  "scores_line shown cs =
     (if shown then ''Relevance scores: '' @ join '', '' (score_strings cs) else '''')"

definition system_message :: "pipeline \<Rightarrow> (string \<rightharpoonup> pyval) \<Rightarrow> string" where
  "system_message self system_kwargs =
     system_text (response_style self) (response_length_of system_kwargs)"

definition user_message :: "pipeline \<Rightarrow> string \<Rightarrow> scored_chunk list \<Rightarrow> string" where
  "user_message self user_query cs =
     user_text (strip (context_block cs)) (str_nat (length cs))
       (scores_line (include_scores self) cs) user_query"

subsection \<open>Rendering the two templates\<close>

lemma scan_name:
  "CHR ''}'' \<notin> set m \<Longrightarrow> scan (Some n) (m @ CHR ''}'' # t) = Hole (n @ m) # scan None t"
  by (induction m arbitrary: n) auto

lemma scan_lit: "CHR ''{'' \<notin> set s \<Longrightarrow> scan None (s @ t) = map Lit s @ scan None t"
  by (induction s) auto

lemma scan_hole:
  "CHR ''{'' \<notin> set s \<Longrightarrow> CHR ''}'' \<notin> set m \<Longrightarrow>
   scan None (s @ CHR ''{'' # m @ CHR ''}'' # t) = map Lit s @ Hole m # scan None t"
  using scan_name [of m "[]" t] by (simp add: scan_lit)

lemma render_lit:
  "render p params (map Lit s @ segs) =
     (case render p params segs of Inl e \<Rightarrow> Inl e | Inr r \<Rightarrow> Inr (s @ r))"
  by (induction s) (auto split: sum.splits)

lemma render_hole:
  "params n = Some v \<Longrightarrow>
   render p params (Hole n # segs) =
     (case render p params segs of Inl e \<Rightarrow> Inl e | Inr r \<Rightarrow> Inr (py_str v @ r))"
  by simp

lemma scan_system:
  \<open>scan None RAG_SYSTEM_TEMPLATE =
    map Lit
     (''You are a knowledgeable assistant that answers questions based strictly on provided context.\<newline>'' @
      ''\<newline>'' @
      ''Instructions:\<newline>'' @
      ''- Only answer questions using information from the provided context\<newline>'' @
      ''- If the context doesn't contain relevant information, respond with "I don't know"\<newline>'' @
      ''- Be accurate and cite specific parts of the context when possible\<newline>'' @
      ''- Keep responses '') @
    Hole ''response_style'' # map Lit '' and '' @ Hole ''response_length'' #
    map Lit
     (''\<newline>'' @
      ''- Only use the provided context. Do not use external knowledge.\<newline>'' @
      ''- Only provide answers when you are confident the context supports your response.'') @ []\<close>
proof -
  have \<open>RAG_SYSTEM_TEMPLATE =
    (''You are a knowledgeable assistant that answers questions based strictly on provided context.\<newline>'' @
     ''\<newline>'' @
     ''Instructions:\<newline>'' @
     ''- Only answer questions using information from the provided context\<newline>'' @
     ''- If the context doesn't contain relevant information, respond with "I don't know"\<newline>'' @
     ''- Be accurate and cite specific parts of the context when possible\<newline>'' @
     ''- Keep responses '') @ CHR ''{'' # ''response_style'' @ CHR ''}'' #
    '' and '' @ CHR ''{'' # ''response_length'' @ CHR ''}'' #
    (''\<newline>'' @
     ''- Only use the provided context. Do not use external knowledge.\<newline>'' @
     ''- Only provide answers when you are confident the context supports your response.'') @ []\<close>
    unfolding RAG_SYSTEM_TEMPLATE_def by simp
  then show ?thesis
    apply (rule ssubst)
    apply (subst scan_hole, simp, simp)
    apply (subst scan_hole, simp, simp)
    apply (subst scan_lit, simp)
    apply simp
    done
qed

lemma system_render:
  "create_message rag_system_prompt [''response_style'' \<mapsto> a, ''response_length'' \<mapsto> b]
     = Inr (system_text (py_str a) (py_str b))"
  unfolding create_message_def
  apply (simp only: scan_system prompt.simps rag_system_prompt_def)
  apply (simp only: render_lit render_hole [of _ _ a] render_hole [of _ _ b] render.simps sum.case)
  apply (simp add: system_text_def)
  done

lemma scan_user:
  "scan None RAG_USER_TEMPLATE =
    map Lit ''Context Information:\<newline>'' @ Hole ''context'' #
    map Lit (''\<newline>'' @ ''\<newline>'' @ ''Number of relevant sources found: '') @ Hole ''context_count'' #
    map Lit ''\<newline>'' @ Hole ''similarity_scores'' #
    map Lit (''\<newline>'' @ ''\<newline>'' @ ''Question: '') @ Hole ''user_query'' #
    map Lit (''\<newline>'' @ ''\<newline>'' @ ''Please provide your answer based solely on the context above.'') @ []"
proof -
  have "RAG_USER_TEMPLATE =
    ''Context Information:\<newline>'' @ CHR ''{'' # ''context'' @ CHR ''}'' #
    (''\<newline>'' @ ''\<newline>'' @ ''Number of relevant sources found: '') @ CHR ''{'' # ''context_count'' @ CHR ''}'' #
    ''\<newline>'' @ CHR ''{'' # ''similarity_scores'' @ CHR ''}'' #
    (''\<newline>'' @ ''\<newline>'' @ ''Question: '') @ CHR ''{'' # ''user_query'' @ CHR ''}'' #
    (''\<newline>'' @ ''\<newline>'' @ ''Please provide your answer based solely on the context above.'') @ []"
    unfolding RAG_USER_TEMPLATE_def by simp
  then show ?thesis
    apply (rule ssubst)
    apply (subst scan_hole, simp, simp)
    apply (subst scan_hole, simp, simp)
    apply (subst scan_hole, simp, simp)
    apply (subst scan_hole, simp, simp)
    apply (subst scan_lit, simp)
    apply simp
    done
qed

lemma user_render:
  "create_message rag_user_prompt
     [''user_query'' \<mapsto> q, ''context'' \<mapsto> c, ''context_count'' \<mapsto> n, ''similarity_scores'' \<mapsto> s]
     = Inr (user_text (py_str c) (py_str n) (py_str s) (py_str q))"
  unfolding create_message_def
  apply (simp only: scan_user prompt.simps rag_user_prompt_def)
  apply (simp only: render_lit render_hole [of _ _ q] render_hole [of _ _ c]
       render_hole [of _ _ n] render_hole [of _ _ s] render.simps sum.case)
  apply (simp add: user_text_def)
  done

lemma loop_fold:
  "foldl loop_body (cp, ss) xs =
     (cp @ concat (map (\<lambda>x. source_entry x @ ''\<newline>\<newline>'') xs), ss @ map score_entry xs)"
  by (induction xs arbitrary: cp ss) (auto simp: source_entry_def score_entry_def)

lemma str_int_nat: "str_int (int n) = str_nat n"
  by (simp add: str_int_def)

lemma run_pipeline_eq:
  "run_pipeline self q k kw tr =
     (case vector_db_retriever self q k of
        Inl e \<Rightarrow> (Inl e, tr @ [SearchByText q k])
      | Inr cs \<Rightarrow>
          (case llm self [system_message self kw, user_message self q cs] of
             Inl e \<Rightarrow> (Inl e, tr @ [SearchByText q k, LlmRun [system_message self kw, user_message self q cs]])
           | Inr r \<Rightarrow>
               (Inr \<lparr>response = r, context_list = cs, context_count = int (length cs),
                     similarity_scores = (if include_scores self then Some (score_strings cs) else None),
                     prompts_used = \<lparr>system = system_message self kw, user = user_message self q cs\<rparr>\<rparr>,
                tr @ [SearchByText q k, LlmRun [system_message self kw, user_message self q cs]])))"
  unfolding run_pipeline_def Let_def
  by (simp add: loop_fold system_render user_render system_message_def user_message_def
        response_length_of_def context_block_def score_strings_def scores_line_def str_int_nat
        split: sum.splits option.splits)

subsection \<open>The template examples of the specification\<close>

text \<open>
  Section 8 of the specification gives two renderings of the strict template
  \<open>Hello {name}\<close>; the model of \<open>create_message\<close> agrees with both. A key that the
  template does not name changes nothing.
\<close>

lemma hello_missing:
  "create_message \<lparr>template = ''Hello {name}'', strict = True, defaults = Map.empty\<rparr> Map.empty =
     Inl (MissingPlaceholderError ''name'')"
  by (simp add: create_message_def)

lemma hello_default:
  "create_message
     \<lparr>template = ''Hello {name}'', strict = True, defaults = [''name'' \<mapsto> VStr ''World'']\<rparr>
     Map.empty = Inr ''Hello World''"
  by (simp add: create_message_def)

lemma hello_extra_key:
  "create_message
     \<lparr>template = ''Hello {name}'', strict = True, defaults = [''name'' \<mapsto> VStr ''World'']\<rparr>
     [''include_warnings'' \<mapsto> VBool True] = Inr ''Hello World''"
  by (simp add: create_message_def)

subsection \<open>The shape of a formatted score\<close>

lemma round_half_even_error: "\<bar>of_int (round_half_even x) - x\<bar> \<le> 1 / 2"
  unfolding round_half_even_def Let_def by (simp; linarith)

lemma digit_char_digit: "d < 10 \<Longrightarrow> digit_char d \<in> set ''0123456789''"
  unfolding digit_char_def by (rule nth_mem) simp

lemma format_3f_shape:
  "\<exists>whole a b c.
     format_3f x = (if x < 0 then ''-'' else '''') @ whole @ [CHR ''.'', a, b, c] \<and>
     a \<in> set ''0123456789'' \<and> b \<in> set ''0123456789'' \<and> c \<in> set ''0123456789''"
proof -
  let ?m = "nat (round_half_even (\<bar>x\<bar> * 1000)) mod 1000"
  have a: "digit_char (?m div 100) \<in> set ''0123456789''"
    by (rule digit_char_digit) simp
  have b: "digit_char (?m div 10 mod 10) \<in> set ''0123456789''"
    by (rule digit_char_digit) simp
  have c: "digit_char (?m mod 10) \<in> set ''0123456789''"
    by (rule digit_char_digit) simp
  have "format_3f x =
          (if x < 0 then ''-'' else '''') @ str_nat (nat (round_half_even (\<bar>x\<bar> * 1000)) div 1000) @
          [CHR ''.'', digit_char (?m div 100), digit_char (?m div 10 mod 10), digit_char (?m mod 10)]"
    by (simp add: format_3f_def Let_def pad3_def)
  with a b c show ?thesis by blast
qed

lemma below_ten: "d < 10 \<Longrightarrow> d \<in> {0, 1, 2, 3, 4, 5, 6, 7, 8, 9 :: nat}"
  by auto

lemma digit_value_digit_char: "d < 10 \<Longrightarrow> digit_value (digit_char d) = Some d"
  by (drule below_ten) (auto simp: digit_char_def digit_value_def)

lemma digit_char_zero: "d < 10 \<Longrightarrow> digit_char d = CHR ''0'' \<Longrightarrow> d = 0"
  by (drule below_ten) (auto simp: digit_char_def)


lemma read_digits_append:
  "read_digits acc (xs @ ys) =
     (case read_digits acc xs of None \<Rightarrow> None | Some a \<Rightarrow> read_digits a ys)"
  by (induction xs arbitrary: acc) (auto split: option.splits)

lemma read_digits_str_nat: "read_digits 0 (str_nat n) = Some n"
proof (induction n rule: str_nat.induct)
  case (1 n)
  show ?case
  proof (cases "n < 10")
    case True
    then show ?thesis
      by (subst str_nat.simps) (simp add: digit_value_digit_char)
  next
    case False
    then have "read_digits 0 (str_nat (n div 10)) = Some (n div 10)"
      using "1.IH" by simp
    moreover have "digit_value (digit_char (n mod 10)) = Some (n mod 10)"
      by (rule digit_value_digit_char) simp
    ultimately show ?thesis
      using False
      by (subst str_nat.simps) (simp add: read_digits_append)
  qed
qed

lemma str_nat_not_Nil: "str_nat n \<noteq> []"
  by (subst str_nat.simps) simp

lemma str_nat_hd_digit: "digit_value (hd (str_nat n)) \<noteq> None"
  using read_digits_str_nat [of n] str_nat_not_Nil [of n]
  by (cases "str_nat n") (auto split: option.splits)

lemma str_nat_leading_zero: "hd (str_nat n) = CHR ''0'' \<Longrightarrow> str_nat n = ''0''"
proof (induction n rule: str_nat.induct)
  case (1 n)
  show ?case
  proof (cases "n < 10")
    case True
    with "1.prems" have "digit_char n = CHR ''0''"
      by (subst (asm) str_nat.simps) simp
    with True have "n = 0" by (rule digit_char_zero)
    then show ?thesis by (subst str_nat.simps) (simp add: digit_char_def)
  next
    case False
    with "1.prems" have "hd (str_nat (n div 10)) = CHR ''0''"
      by (subst (asm) str_nat.simps) (simp add: str_nat_not_Nil)
    with False "1.IH" have "str_nat (n div 10) = ''0''" by simp
    then have "read_digits 0 (str_nat (n div 10)) = Some 0" by (simp add: digit_value_def)
    then have "n div 10 = 0" by (simp add: read_digits_str_nat)
    with False show ?thesis by simp
  qed
qed

lemma reads_nat_str_nat: "reads_nat (str_nat n) = Some n"
proof (cases "hd (str_nat n) = CHR ''0''")
  case True
  then have "str_nat n = ''0''" by (rule str_nat_leading_zero)
  then show ?thesis
    using read_digits_str_nat [of n] by (simp add: reads_nat_def)
next
  case False
  then show ?thesis
    by (simp add: reads_nat_def str_nat_not_Nil read_digits_str_nat)
qed

lemma three_digits: "10 * (10 * (b div 100) + b div 10 mod 10) + b mod 10 = (b :: nat)"
proof -
  have "b div 100 = b div 10 div 10"
    by (simp add: div_mult2_eq [symmetric])
  then have "10 * (b div 100) + b div 10 mod 10 = b div 10"
    by (simp only: mult_div_mod_eq)
  then show ?thesis
    by (simp only: mult_div_mod_eq)
qed

lemma read_digits_pad3: "b < 1000 \<Longrightarrow> read_digits 0 (pad3 b) = Some b"
proof -
  assume b: "b < 1000"
  have a: "digit_value (digit_char (b div 100)) = Some (b div 100)"
    by (rule digit_value_digit_char) (use b in linarith)
  have c: "digit_value (digit_char (b div 10 mod 10)) = Some (b div 10 mod 10)"
    by (rule digit_value_digit_char) (rule mod_less_divisor, rule zero_less_numeral)
  have d: "digit_value (digit_char (b mod 10)) = Some (b mod 10)"
    by (rule digit_value_digit_char) (rule mod_less_divisor, rule zero_less_numeral)
  have "read_digits 0 (pad3 b) = Some (10 * (10 * (b div 100) + b div 10 mod 10) + b mod 10)"
    unfolding pad3_def
    by (simp only: read_digits.simps a c d option.case mult_zero_right add_0_left mult_0_right)
  then show ?thesis
    by (simp only: three_digits)
qed

lemma reads_3f_plain:
  assumes "length f = 3" and "hd (w @ ''.'' @ f) \<noteq> CHR ''-''"
    and "reads_nat w = Some a" and "read_digits 0 f = Some b"
  shows "reads_3f (w @ ''.'' @ f) = Some (False, 1000 * a + b)"
proof -
  have len: "length (w @ ''.'' @ f) = length w + 4"
    using assms(1) by simp
  have t: "take (length w + 4 - 4) (w @ ''.'' @ f) = w"
    by simp
  have d: "drop (length w + 4 - 3) (w @ ''.'' @ f) = f"
    by simp
  have n: "(w @ ''.'' @ f) ! (length w + 4 - 4) = CHR ''.''"
    by simp
  have neg: "(w @ ''.'' @ f \<noteq> [] \<and> hd (w @ ''.'' @ f) = CHR ''-'') = False"
    using assms(2) by simp
  have "w \<noteq> []"
    using assms(3) by (auto simp: reads_nat_def)
  then show ?thesis
    unfolding reads_3f_def Let_def neg if_False len t d n assms(3,4)
    by simp
qed

lemma reads_3f_minus:
  assumes "length f = 3" and "reads_nat w = Some a" and "read_digits 0 f = Some b"
  shows "reads_3f (CHR ''-'' # w @ ''.'' @ f) = Some (True, 1000 * a + b)"
proof -
  have len: "length (w @ ''.'' @ f) = length w + 4"
    using assms(1) by simp
  have t: "take (length w + 4 - 4) (w @ ''.'' @ f) = w"
    by simp
  have d: "drop (length w + 4 - 3) (w @ ''.'' @ f) = f"
    by simp
  have n: "(w @ ''.'' @ f) ! (length w + 4 - 4) = CHR ''.''"
    by simp
  have neg: "(CHR ''-'' # w @ ''.'' @ f \<noteq> [] \<and> hd (CHR ''-'' # w @ ''.'' @ f) = CHR ''-'') = True"
    by simp
  have tl: "tl (CHR ''-'' # w @ ''.'' @ f) = w @ ''.'' @ f"
    by simp
  have "w \<noteq> []"
    using assms(2) by (auto simp: reads_nat_def)
  then show ?thesis
    unfolding reads_3f_def Let_def neg if_True tl len t d n assms(2,3)
    by simp
qed

lemma reads_3f_format_3f:
  "reads_3f (format_3f x) = Some (x < 0, nat (round_half_even (\<bar>x\<bar> * 1000)))"
proof -
  let ?m = "nat (round_half_even (\<bar>x\<bar> * 1000))"
  let ?w = "str_nat (?m div 1000)"
  let ?f = "pad3 (?m mod 1000)"
  have f: "format_3f x = (if x < 0 then CHR ''-'' # ?w @ ''.'' @ ?f else ?w @ ''.'' @ ?f)"
    by (simp add: format_3f_def Let_def)
  have l: "length ?f = 3"
    by (simp add: pad3_def)
  have h: "hd (?w @ ''.'' @ ?f) \<noteq> CHR ''-''"
    using str_nat_hd_digit [of "?m div 1000"] str_nat_not_Nil [of "?m div 1000"]
    by (cases ?w) (auto simp: digit_value_def)
  have w: "reads_nat ?w = Some (?m div 1000)"
    by (rule reads_nat_str_nat)
  have r: "read_digits 0 ?f = Some (?m mod 1000)"
    by (rule read_digits_pad3) (rule mod_less_divisor, rule zero_less_numeral)
  have v: "1000 * (?m div 1000) + ?m mod 1000 = ?m"
    by (rule mult_div_mod_eq)
  show ?thesis
    unfolding f using reads_3f_plain [OF l h w r] reads_3f_minus [OF l w r]
    by (simp only: v split: if_splits) simp
qed

lemma nearest_even_round:
  assumes "0 \<le> y"
  shows "nearest_even y (nat (round_half_even y))"
proof -
  let ?f = "\<lfloor>y\<rfloor>"
  have f: "0 \<le> ?f" using assms by simp
  have b: "of_int ?f \<le> y" "y < of_int ?f + 1" by linarith+
  consider (lo) "y - of_int ?f < 1 / 2" | (hi) "1 / 2 < y - of_int ?f"
    | (even) "y - of_int ?f = 1 / 2" "even ?f" | (odd) "y - of_int ?f = 1 / 2" "odd ?f"
    by fastforce
  then show ?thesis
  proof cases
    case lo
    then have r: "round_half_even y = ?f" by (simp add: round_half_even_def Let_def)
    have "real (nat ?f) = of_int ?f" using f by simp
    then have "\<bar>y - real (nat ?f)\<bar> < 1 / 2" using lo b by linarith
    then show ?thesis by (simp only: nearest_even_def r) simp
  next
    case hi
    then have r: "round_half_even y = ?f + 1" by (simp add: round_half_even_def Let_def)
    have "real (nat (?f + 1)) = of_int ?f + 1" using f by (simp add: nat_add_distrib)
    then have "\<bar>y - real (nat (?f + 1))\<bar> < 1 / 2" using hi b by linarith
    then show ?thesis by (simp only: nearest_even_def r) simp
  next
    case even
    then have r: "round_half_even y = ?f" by (simp add: round_half_even_def Let_def)
    have "real (nat ?f) = of_int ?f" using f by simp
    then have "\<bar>y - real (nat ?f)\<bar> = 1 / 2" using even(1) by linarith
    moreover have "Parity.even (nat ?f)" using even(2) f by (simp add: even_nat_iff)
    ultimately show ?thesis by (simp only: nearest_even_def r) simp
  next
    case odd
    then have r: "round_half_even y = ?f + 1" by (simp add: round_half_even_def Let_def)
    have "real (nat (?f + 1)) = of_int ?f + 1" using f by (simp add: nat_add_distrib)
    then have "\<bar>y - real (nat (?f + 1))\<bar> = 1 / 2" using odd(1) by linarith
    moreover have "Parity.even (nat (?f + 1))" using odd(2) f by (simp add: even_nat_iff)
    ultimately show ?thesis by (simp only: nearest_even_def r) simp
  qed
qed

lemma format_3f_shows_3_decimals: "shows_3_decimals x (format_3f x)"
  by (simp add: shows_3_decimals_def reads_3f_format_3f nearest_even_round)

subsection \<open>A recorded run\<close>

text \<open>
  The call of the notebook's last cell, with three retrieved chunks whose scores
  print as in the cell's recorded output.
\<close>

definition demo_chunks :: "scored_chunk list" where
  "demo_chunks =
     [(''U-6 players are absorbed in play. '', 6372 / 10000),
      (''Coaches of the U-6 age group vary activities.'', 6141 / 10000),
      (''U-8 players begin to look to pass.'', 6096 / 10000)]"

definition demo_pipeline :: pipeline where
  "demo_pipeline =
     \<lparr>llm = (\<lambda>messages. Inr ''The differences revolve around developmental stages.''),
      vector_db_retriever = (\<lambda>query_text k. Inr (take (nat k) demo_chunks)),
      response_style = ''detailed'',
      include_scores = True\<rparr>"

definition demo_query :: string where
  "demo_query = ''What are the differences between coaching kids five to six years old and kids seven to eight years old?''"

definition demo_kwargs :: "string \<rightharpoonup> pyval" where
  "demo_kwargs =
     [''response_length'' \<mapsto> VStr ''comprehensive'',
      ''include_warnings'' \<mapsto> VBool True,
      ''confidence_required'' \<mapsto> VBool True]"

definition demo_prompts :: prompts where
  "demo_prompts =
     \<lparr>system = system_text ''detailed'' ''comprehensive'',
      user = user_text
        (''[Source 1]: U-6 players are absorbed in play. \<newline>\<newline>'' @
         ''[Source 2]: Coaches of the U-6 age group vary activities.\<newline>\<newline>'' @
         ''[Source 3]: U-8 players begin to look to pass.'')
        ''3''
        ''Relevance scores: Source 1: 0.637, Source 2: 0.614, Source 3: 0.610''
        demo_query\<rparr>"

definition demo_result :: pipeline_result where
  "demo_result =
     \<lparr>response = ''The differences revolve around developmental stages.'',
      context_list = demo_chunks,
      context_count = 3,
      similarity_scores = Some [''Source 1: 0.637'', ''Source 2: 0.614'', ''Source 3: 0.610''],
      prompts_used = demo_prompts\<rparr>"

definition demo_trace :: "event list" where
  "demo_trace =
     [SearchByText demo_query 3, LlmRun [system demo_prompts, user demo_prompts]]"

lemmas eval_simps =
  str_nat.simps digit_char_def format_3f_def round_half_even_def pad3_def Let_def
  enumerate_eq_zip strip_def is_space_def source_entry_def score_entry_def
  context_block_def score_strings_def scores_line_def system_message_def user_message_def
  response_length_of_def

lemma demo_score_strings:
  "score_strings demo_chunks = [''Source 1: 0.637'', ''Source 2: 0.614'', ''Source 3: 0.610'']"
  by (simp add: demo_chunks_def eval_simps upt_rec)

lemma demo_block:
  "strip (context_block demo_chunks) =
     ''[Source 1]: U-6 players are absorbed in play. \<newline>\<newline>'' @
     ''[Source 2]: Coaches of the U-6 age group vary activities.\<newline>\<newline>'' @
     ''[Source 3]: U-8 players begin to look to pass.''"
  by (simp add: demo_chunks_def eval_simps upt_rec)

lemma demo_run:
  "run_pipeline demo_pipeline demo_query 3 demo_kwargs [] = (Inr demo_result, demo_trace)"
proof -
  have r: "vector_db_retriever demo_pipeline demo_query 3 = Inr demo_chunks"
    by (simp add: demo_pipeline_def demo_chunks_def)
  have s: "system_message demo_pipeline demo_kwargs = system_text ''detailed'' ''comprehensive''"
    by (simp add: system_message_def response_length_of_def demo_pipeline_def demo_kwargs_def)
  have n: "length demo_chunks = 3"
    by (simp add: demo_chunks_def)
  have u: "user_message demo_pipeline demo_query demo_chunks = user demo_prompts"
    unfolding user_message_def demo_block demo_prompts_def n
    by (simp add: scores_line_def demo_score_strings demo_pipeline_def str_nat.simps digit_char_def)
  have l: "llm demo_pipeline msgs = Inr ''The differences revolve around developmental stages.''"
    for msgs
    by (simp add: demo_pipeline_def)
  have i: "include_scores demo_pipeline"
    by (simp add: demo_pipeline_def)
  show ?thesis
    by (simp only: run_pipeline_eq r s u l i sum.case)
      (simp add: demo_result_def demo_trace_def demo_prompts_def n demo_score_strings)
qed

text \<open>
  C2. The field \<open>similarity_scores\<close> of a returned result is \<open>None\<close> when the pipeline
  was built with \<open>include_scores = False\<close>; otherwise it holds, for the chunks in the
  order the retriever returned them, the strings \<open>Source i: score\<close>. In each of them
  the number reads back as \<open>i\<close>, counted from 1, and the score is shown to three
  decimal places.
\<close>

theorem similarity_scores_field:
  assumes "run_pipeline self q k kw tr = (Inr res, tr')"
  shows "vector_db_retriever self q k = Inr (context_list res) \<and>
         similarity_scores res =
           (if include_scores self
            then Some (map (\<lambda>(i, context, score). ''Source '' @ str_nat i @ '': '' @ format_3f score)
                        (enumerate 1 (context_list res)))
            else None) \<and>
         (\<forall>(i, context, score)\<in>set (enumerate 1 (context_list res)).
            reads_nat (str_nat i) = Some i \<and> shows_3_decimals score (format_3f score))"
  using assms unfolding run_pipeline_eq
  by (auto simp: score_strings_def score_entry_def case_prod_beta reads_nat_str_nat
        format_3f_shows_3_decimals split: sum.splits)

theorem similarity_scores_field_witness:
  "run_pipeline demo_pipeline demo_query 3 demo_kwargs [] = (Inr demo_result, demo_trace) \<and>
   include_scores demo_pipeline \<and>
   similarity_scores demo_result =
     Some (map (\<lambda>(i, context, score). ''Source '' @ str_nat i @ '': '' @ format_3f score)
            (enumerate 1 (context_list demo_result))) \<and>
   similarity_scores demo_result = Some [''Source 1: 0.637'', ''Source 2: 0.614'', ''Source 3: 0.610''] \<and>
   (3, ''U-8 players begin to look to pass.'', 6096 / 10000) \<in> set (enumerate 1 (context_list demo_result)) \<and>
   reads_nat (str_nat 3) = Some 3 \<and>
   shows_3_decimals (6096 / 10000) (format_3f (6096 / 10000)) \<and>
   format_3f (6096 / 10000) = ''0.610'' \<and> str_nat 3 = ''3''"
proof -
  have m: "(3, ''U-8 players begin to look to pass.'', 6096 / 10000) \<in> set (enumerate 1 (context_list demo_result))"
    by (simp add: demo_result_def demo_chunks_def)
  have e: "format_3f (6096 / 10000) = ''0.610''" "str_nat 3 = ''3''"
    by (simp_all add: eval_simps)
  have i: "include_scores demo_pipeline"
    by (simp add: demo_pipeline_def)
  have s: "similarity_scores demo_result = Some [''Source 1: 0.637'', ''Source 2: 0.614'', ''Source 3: 0.610'']"
    by (simp add: demo_result_def)
  from similarity_scores_field [OF demo_run] m
  have "reads_nat (str_nat 3) = Some 3 \<and> shows_3_decimals (6096 / 10000) (format_3f (6096 / 10000))"
    by blast
  then show ?thesis
    using similarity_scores_field [OF demo_run] demo_run m e i s by simp
qed

subsection \<open>Runs that fail\<close>

definition no_embedding_pipeline :: pipeline where
  "no_embedding_pipeline =
     demo_pipeline\<lparr>vector_db_retriever := (\<lambda>query_text k. Inl EmbeddingError)\<rparr>"

definition no_answer_pipeline :: pipeline where
  "no_answer_pipeline = demo_pipeline\<lparr>llm := (\<lambda>messages. Inl GenerationError)\<rparr>"

text \<open>
  C10. In a returned result \<open>context_count\<close> is the length of \<open>context_list\<close>, and
  with \<open>include_scores\<close> set the list \<open>similarity_scores\<close> has that length too.
\<close>

theorem context_count_matches:
  assumes "run_pipeline self q k kw tr = (Inr res, tr')"
  shows "context_count res = int (length (context_list res)) \<and>
         (include_scores self \<longrightarrow>
            map_option length (similarity_scores res) = Some (length (context_list res)))"
  using assms unfolding run_pipeline_eq
  by (auto simp: score_strings_def split: sum.splits)

theorem context_count_matches_witness:
  "run_pipeline demo_pipeline demo_query 3 demo_kwargs [] = (Inr demo_result, demo_trace) \<and>
   context_count demo_result = 3 \<and> length (context_list demo_result) = 3 \<and>
   include_scores demo_pipeline \<and>
   map_option length (similarity_scores demo_result) = Some 3"
proof -
  have i: "include_scores demo_pipeline"
    by (simp add: demo_pipeline_def)
  have n: "length (context_list demo_result) = 3"
    by (simp add: demo_result_def demo_chunks_def)
  show ?thesis
    using context_count_matches [OF demo_run] demo_run i n by simp
qed

text \<open>
  C9. Two calls that agree on \<open>response_length\<close> (given with the same value in both,
  or in neither) and differ in any other keyword arguments return the same outcome:
  the same result or the same error, after the same calls to the collaborators.
\<close>

theorem extra_kwargs_ignored:
  assumes "kw1 ''response_length'' = kw2 ''response_length''"
  shows "run_pipeline self q k kw1 tr = run_pipeline self q k kw2 tr"
proof -
  have "system_message self kw1 = system_message self kw2"
    using assms by (simp add: system_message_def response_length_of_def)
  then show ?thesis
    by (simp only: run_pipeline_eq)
qed

theorem extra_kwargs_ignored_witness:
  "demo_kwargs ''response_length'' = [''response_length'' \<mapsto> VStr ''comprehensive''] ''response_length'' \<and>
   demo_kwargs ''include_warnings'' = Some (VBool True) \<and>
   [''response_length'' \<mapsto> VStr ''comprehensive''] ''include_warnings'' = None \<and>
   run_pipeline demo_pipeline demo_query 3 demo_kwargs [] =
     run_pipeline demo_pipeline demo_query 3 [''response_length'' \<mapsto> VStr ''comprehensive''] [] \<and>
   run_pipeline demo_pipeline demo_query 3 [''response_length'' \<mapsto> VStr ''comprehensive''] [] =
     (Inr demo_result, demo_trace)"
proof -
  have h: "demo_kwargs ''response_length'' =
           [''response_length'' \<mapsto> VStr ''comprehensive''] ''response_length''"
    by (simp add: demo_kwargs_def)
  have w: "demo_kwargs ''include_warnings'' = Some (VBool True)"
    by (simp add: demo_kwargs_def)
  show ?thesis
    using extra_kwargs_ignored [of demo_kwargs "[''response_length'' \<mapsto> VStr ''comprehensive'']"
            demo_pipeline demo_query 3 "[]"] h w demo_run
    by simp
qed

text \<open>
  C4. A failure of retrieval is the outcome of the run, unchanged, and the LLM is not
  called. A failure of the LLM call is the outcome of the run, unchanged. A run returns
  a result only when retrieval returned and the LLM returned, and the response of the
  result is what the LLM returned.
\<close>

theorem failures_propagate:
  "(vector_db_retriever self q k = Inl e \<longrightarrow>
      run_pipeline self q k kw tr = (Inl e, tr @ [SearchByText q k])) \<and>
   (vector_db_retriever self q k = Inr cs \<and>
    llm self [system_message self kw, user_message self q cs] = Inl e \<longrightarrow>
      fst (run_pipeline self q k kw tr) = Inl e) \<and>
   (fst (run_pipeline self q k kw tr) = Inr res \<longrightarrow>
      vector_db_retriever self q k = Inr (context_list res) \<and>
      llm self [system_message self kw, user_message self q (context_list res)] =
        Inr (response res))"
  unfolding run_pipeline_eq
  by (auto split: sum.splits)

theorem failures_propagate_witness:
  "vector_db_retriever no_embedding_pipeline demo_query 3 = Inl EmbeddingError \<and>
   run_pipeline no_embedding_pipeline demo_query 3 demo_kwargs [] =
     (Inl EmbeddingError, [SearchByText demo_query 3]) \<and>
   vector_db_retriever no_answer_pipeline demo_query 3 = Inr demo_chunks \<and>
   llm no_answer_pipeline
     [system_message no_answer_pipeline demo_kwargs,
      user_message no_answer_pipeline demo_query demo_chunks] = Inl GenerationError \<and>
   fst (run_pipeline no_answer_pipeline demo_query 3 demo_kwargs []) = Inl GenerationError \<and>
   fst (run_pipeline demo_pipeline demo_query 3 demo_kwargs []) = Inr demo_result \<and>
   llm demo_pipeline
     [system_message demo_pipeline demo_kwargs,
      user_message demo_pipeline demo_query (context_list demo_result)] =
     Inr (response demo_result)"
proof -
  have a: "vector_db_retriever no_embedding_pipeline demo_query 3 = Inl EmbeddingError"
    by (simp add: no_embedding_pipeline_def)
  have b: "vector_db_retriever no_answer_pipeline demo_query 3 = Inr demo_chunks"
    by (simp add: no_answer_pipeline_def demo_pipeline_def demo_chunks_def)
  have c: "llm no_answer_pipeline msgs = Inl GenerationError" for msgs
    by (simp add: no_answer_pipeline_def)
  have d: "fst (run_pipeline demo_pipeline demo_query 3 demo_kwargs []) = Inr demo_result"
    by (simp add: demo_run)
  show ?thesis
    using failures_propagate [of no_embedding_pipeline demo_query 3 EmbeddingError
            demo_kwargs "[]" "[]" demo_result]
          failures_propagate [of no_answer_pipeline demo_query 3 GenerationError
            demo_kwargs "[]" demo_chunks demo_result]
          failures_propagate [of demo_pipeline demo_query 3 GenerationError
            demo_kwargs "[]" "[]" demo_result]
          a b c d
    by simp
qed

text \<open>
  C6. In every run the system message is the system template with \<open>response_style\<close>
  taken from the pipeline and \<open>response_length\<close> taken from the keyword argument of
  that name, or \<open>detailed\<close> when the caller gave none: once retrieval has returned,
  that is the system message handed to the LLM, and it is the one \<open>prompts_used\<close> of a
  returned result reports.
\<close>

theorem system_message_parameters:
  "(vector_db_retriever self q k = Inr cs \<longrightarrow>
      snd (run_pipeline self q k kw tr) =
        tr @ [SearchByText q k,
              LlmRun [system_text (response_style self)
                        (case kw ''response_length'' of Some v \<Rightarrow> py_str v | None \<Rightarrow> ''detailed''),
                      user_message self q cs]]) \<and>
   (fst (run_pipeline self q k kw tr) = Inr res \<longrightarrow>
      system (prompts_used res) =
        system_text (response_style self)
          (case kw ''response_length'' of Some v \<Rightarrow> py_str v | None \<Rightarrow> ''detailed''))"
  unfolding run_pipeline_eq system_message_def response_length_of_def
  by (auto split: sum.splits)

theorem system_message_parameters_witness:
  "vector_db_retriever demo_pipeline demo_query 3 = Inr demo_chunks \<and>
   fst (run_pipeline demo_pipeline demo_query 3 demo_kwargs []) = Inr demo_result \<and>
   system (prompts_used demo_result) = system_text ''detailed'' ''comprehensive'' \<and>
   snd (run_pipeline demo_pipeline demo_query 3 Map.empty []) =
     [SearchByText demo_query 3,
      LlmRun [system_text ''detailed'' ''detailed'',
              user_message demo_pipeline demo_query demo_chunks]]"
proof -
  have r: "vector_db_retriever demo_pipeline demo_query 3 = Inr demo_chunks"
    by (simp add: demo_pipeline_def demo_chunks_def)
  have s: "response_style demo_pipeline = ''detailed''"
    by (simp add: demo_pipeline_def)
  have k: "demo_kwargs ''response_length'' = Some (VStr ''comprehensive'')"
    by (simp add: demo_kwargs_def)
  have d: "fst (run_pipeline demo_pipeline demo_query 3 demo_kwargs []) = Inr demo_result"
    by (simp add: demo_run)
  show ?thesis
    using system_message_parameters [of demo_pipeline demo_query 3 demo_chunks
            demo_kwargs "[]" demo_result]
          system_message_parameters [of demo_pipeline demo_query 3 demo_chunks
            Map.empty "[]" demo_result]
          r s k d
    by auto
qed

subsection \<open>Stripping the context block\<close>

lemma strip_padded:
  assumes "s \<noteq> []" "\<not> is_space (hd s)" "\<not> is_space (last s)" "\<forall>c\<in>set w. is_space c"
  shows "strip (s @ w) = s"
proof -
  have front: "dropWhile is_space (s @ w) = s @ w"
    using assms(1,2) by (cases s) auto
  have "dropWhile is_space (rev w @ rev s) = dropWhile is_space (rev s)"
    using assms(4) by (intro dropWhile_append2) auto
  also have "\<dots> = rev s"
    using assms(1,3) by (simp add: dropWhile_eq_self_iff hd_rev)
  finally show ?thesis
    by (simp add: strip_def front)
qed

lemma concat_terminated:
  "xs \<noteq> [] \<Longrightarrow> concat (map (\<lambda>x. f x @ sep) xs) = join sep (map f xs) @ sep"
proof (induction xs)
  case Nil
  then show ?case by simp
next
  case (Cons x xs)
  then show ?case by (cases xs) auto
qed

lemma hd_join: "xs \<noteq> [] \<Longrightarrow> hd xs \<noteq> [] \<Longrightarrow> hd (join sep xs) = hd (hd xs)"
  by (induction sep xs rule: join.induct) auto

lemma join_not_Nil: "xs \<noteq> [] \<Longrightarrow> last xs \<noteq> [] \<Longrightarrow> join sep xs \<noteq> []"
  by (induction sep xs rule: join.induct) auto

lemma last_join: "xs \<noteq> [] \<Longrightarrow> last xs \<noteq> [] \<Longrightarrow> last (join sep xs) = last (last xs)"
proof (induction sep xs rule: join.induct)
  case (3 sep x y ys)
  then show ?case
    using join_not_Nil [of "y # ys" sep] by simp
qed auto

lemma enumerate_Nil_iff: "enumerate n xs = [] \<longleftrightarrow> xs = []"
  by (cases xs) auto

lemma last_enumerate: "xs \<noteq> [] \<Longrightarrow> snd (last (enumerate n xs)) = last xs"
  by (induction xs arbitrary: n) (auto simp: enumerate_Nil_iff)

lemma strip_context_block:
  assumes "cs \<noteq> []" "fst (last cs) \<noteq> []" "\<not> is_space (last (fst (last cs)))"
  shows "strip (context_block cs) = join ''\<newline>\<newline>'' (map source_entry (enumerate 1 cs))"
proof -
  let ?es = "map source_entry (enumerate 1 cs)"
  let ?s = "join ''\<newline>\<newline>'' ?es"
  have ne: "?es \<noteq> []"
    using assms(1) by (cases cs) auto
  have h: "hd ?es \<noteq> []" "hd (hd ?es) = CHR ''[''"
    using assms(1) by (cases cs; simp add: source_entry_def)+
  have "last ?es = source_entry (last (enumerate 1 cs))"
    using assms(1) by (cases cs) (auto simp: last_map)
  then have l: "last ?es \<noteq> []" "last (last ?es) = last (fst (last cs))"
    using assms(1,2) last_enumerate [of cs 1] by (simp_all add: source_entry_def)
  have "context_block cs = ?s @ ''\<newline>\<newline>''"
    using assms(1) concat_terminated [of "enumerate 1 cs" source_entry "''\<newline>\<newline>''"]
    by (cases cs) (auto simp: context_block_def)
  moreover have "strip (?s @ ''\<newline>\<newline>'') = ?s"
  proof (rule strip_padded)
    show "?s \<noteq> []" using ne l(1) by (rule join_not_Nil)
    show "\<not> is_space (hd ?s)" using hd_join [OF ne h(1)] h(2) by (simp add: is_space_def)
    show "\<not> is_space (last ?s)" using last_join [OF ne l(1)] l(2) assms(3) by simp
    show "\<forall>c\<in>set ''\<newline>\<newline>''. is_space c" by (simp add: is_space_def)
  qed
  ultimately show ?thesis by simp
qed

subsection \<open>The user message\<close>

text \<open>A run whose only retrieved chunk ends in a space, as chunks cut at a fixed length do.\<close>

definition spaced_pipeline :: pipeline where
  "spaced_pipeline =
     \<lparr>llm = (\<lambda>messages. Inr ''Play.''),
      vector_db_retriever = (\<lambda>query_text k. Inr [(''Play is central. '', 1 / 2)]),
      response_style = ''detailed'',
      include_scores = False\<rparr>"

definition spaced_outcome :: "error + pipeline_result" where
  "spaced_outcome = fst (run_pipeline spaced_pipeline ''Why play?'' 1 Map.empty [])"

definition spaced_user_message :: string where
  "spaced_user_message =
     ''Context Information:\<newline>'' @
     ''[Source 1]: Play is central.\<newline>'' @
     ''\<newline>'' @
     ''Number of relevant sources found: 1\<newline>'' @
     ''\<newline>'' @
     ''\<newline>'' @
     ''Question: Why play?\<newline>'' @
     ''\<newline>'' @
     ''Please provide your answer based solely on the context above.''"

lemma spaced_run:
  "spaced_outcome =
     Inr \<lparr>response = ''Play.'', context_list = [(''Play is central. '', 1 / 2)],
          context_count = 1, similarity_scores = None,
          prompts_used = \<lparr>system = system_text ''detailed'' ''detailed'',
                          user = spaced_user_message\<rparr>\<rparr>"
proof -
  have r: "vector_db_retriever spaced_pipeline ''Why play?'' 1 = Inr [(''Play is central. '', 1 / 2)]"
    by (simp add: spaced_pipeline_def)
  have u: "user_message spaced_pipeline ''Why play?'' [(''Play is central. '', 1 / 2)] =
           spaced_user_message"
    by (simp add: user_message_def user_text_def spaced_pipeline_def spaced_user_message_def
          eval_simps)
  have s: "system_message spaced_pipeline Map.empty = system_text ''detailed'' ''detailed''"
    by (simp add: system_message_def response_length_of_def spaced_pipeline_def)
  have l: "llm spaced_pipeline msgs = Inr ''Play.''" for msgs
    by (simp add: spaced_pipeline_def)
  have i: "\<not> include_scores spaced_pipeline"
    by (simp add: spaced_pipeline_def)
  show ?thesis
    unfolding spaced_outcome_def
    by (simp only: run_pipeline_eq r s u l i sum.case) simp
qed

text \<open>
  C3, as stated, fails. The retrieved chunk text is \<open>Play is central.\<close> followed by
  a space; the run returns a result, and its user message does not contain the entry
  \<open>[Source 1]:\<close> with that chunk text, because \<^verbatim>\<open>strip()\<close> has removed the end of
  the block.
\<close>

theorem user_message_entry_counterexample:
  "vector_db_retriever spaced_pipeline ''Why play?'' 1 = Inr [(''Play is central. '', 1 / 2)] \<and>
   \<not> isl spaced_outcome \<and>
   context_list (projr spaced_outcome) = [(''Play is central. '', 1 / 2)] \<and>
   user (prompts_used (projr spaced_outcome)) = spaced_user_message \<and>
   \<not> sublist (''[Source 1]: '' @ ''Play is central. '') (user (prompts_used (projr spaced_outcome)))"
proof -
  have "\<not> sublist (''[Source 1]: '' @ ''Play is central. '') spaced_user_message"
    unfolding spaced_user_message_def by (simp add: sublist_code)
  then show ?thesis
    by (simp add: spaced_run) (simp add: spaced_pipeline_def)
qed

text \<open>
  C3, amended. Once retrieval has returned, the user message handed to the LLM, and
  reported in \<open>prompts_used\<close> of a returned result, is the user template filled with:
  the context block, which is one entry \<open>[Source i]: text\<close> per retrieved chunk,
  numbered from 1 in the order of retrieval, each followed by a blank line, with the
  whitespace at both ends of the whole block stripped; the number of retrieved chunks;
  the scores line, empty when \<open>include_scores\<close> is false; and the query. When the text
  of the last chunk is not empty and does not end in whitespace, the stripped block is
  exactly the entries separated by blank lines.
\<close>

theorem user_message_contents:
  assumes "vector_db_retriever self q k = Inr cs"
  shows "let block = concat (map (\<lambda>(i, context, score).
                        ''[Source '' @ str_nat i @ '']: '' @ context @ ''\<newline>\<newline>'')
                     (enumerate 1 cs));
             message =
               user_text (strip block) (str_nat (length cs))
                 (if include_scores self
                  then ''Relevance scores: '' @
                       join '', '' (map (\<lambda>(i, context, score).
                                      ''Source '' @ str_nat i @ '': '' @ format_3f score)
                                   (enumerate 1 cs))
                  else '''')
                 q
         in snd (run_pipeline self q k kw tr) =
              tr @ [SearchByText q k, LlmRun [system_message self kw, message]] \<and>
            (\<forall>res. fst (run_pipeline self q k kw tr) = Inr res \<longrightarrow>
               context_list res = cs \<and> user (prompts_used res) = message) \<and>
            (cs \<noteq> [] \<and> fst (last cs) \<noteq> [] \<and> \<not> is_space (last (fst (last cs))) \<longrightarrow>
               strip block =
                 join ''\<newline>\<newline>''
                   (map (\<lambda>(i, context, score). ''[Source '' @ str_nat i @ '']: '' @ context)
                      (enumerate 1 cs)))"
proof -
  have e: "(\<lambda>(i, context, score). ''[Source '' @ str_nat i @ '']: '' @ context @ ''\<newline>\<newline>'') =
           (\<lambda>x. source_entry x @ ''\<newline>\<newline>'')"
    by (auto simp: source_entry_def)
  have e': "(\<lambda>(i, context, score). ''[Source '' @ str_nat i @ '']: '' @ context) = source_entry"
    by (auto simp: source_entry_def)
  have f: "(\<lambda>(i, context, score). ''Source '' @ str_nat i @ '': '' @ format_3f score) = score_entry"
    by (auto simp: score_entry_def)
  have m: "user_text (strip (concat (map (\<lambda>x. source_entry x @ ''\<newline>\<newline>'') (enumerate 1 cs))))
             (str_nat (length cs))
             (if include_scores self
              then ''Relevance scores: '' @ join '', '' (map score_entry (enumerate 1 cs))
              else '''') q =
           user_message self q cs"
    by (simp add: user_message_def scores_line_def score_strings_def context_block_def)
  have b: "cs \<noteq> [] \<and> fst (last cs) \<noteq> [] \<and> \<not> is_space (last (fst (last cs))) \<longrightarrow>
           strip (concat (map (\<lambda>x. source_entry x @ ''\<newline>\<newline>'') (enumerate 1 cs))) =
           join ''\<newline>\<newline>'' (map source_entry (enumerate 1 cs))"
    using strip_context_block [of cs] by (simp add: context_block_def)
  have r: "snd (run_pipeline self q k kw tr) =
             tr @ [SearchByText q k, LlmRun [system_message self kw, user_message self q cs]] \<and>
           (\<forall>res. fst (run_pipeline self q k kw tr) = Inr res \<longrightarrow>
              context_list res = cs \<and> user (prompts_used res) = user_message self q cs)"
    using assms unfolding run_pipeline_eq by (auto split: sum.splits)
  show ?thesis
    unfolding Let_def e e' f m using r b by blast
qed

theorem user_message_contents_witness:
  "vector_db_retriever demo_pipeline demo_query 3 = Inr demo_chunks \<and>
   demo_chunks \<noteq> [] \<and> fst (last demo_chunks) \<noteq> [] \<and>
   \<not> is_space (last (fst (last demo_chunks))) \<and>
   fst (run_pipeline demo_pipeline demo_query 3 demo_kwargs []) = Inr demo_result \<and>
   user (prompts_used demo_result) =
     user_text
       (''[Source 1]: U-6 players are absorbed in play. \<newline>\<newline>'' @
        ''[Source 2]: Coaches of the U-6 age group vary activities.\<newline>\<newline>'' @
        ''[Source 3]: U-8 players begin to look to pass.'')
       ''3''
       ''Relevance scores: Source 1: 0.637, Source 2: 0.614, Source 3: 0.610''
       demo_query \<and>
   strip (concat (map (\<lambda>(i, context, score).
             ''[Source '' @ str_nat i @ '']: '' @ context @ ''\<newline>\<newline>'')
          (enumerate 1 demo_chunks))) =
     join ''\<newline>\<newline>''
       (map (\<lambda>(i, context, score). ''[Source '' @ str_nat i @ '']: '' @ context)
          (enumerate 1 demo_chunks))"
proof -
  have r: "vector_db_retriever demo_pipeline demo_query 3 = Inr demo_chunks"
    by (simp add: demo_pipeline_def demo_chunks_def)
  have c: "demo_chunks \<noteq> [] \<and> fst (last demo_chunks) \<noteq> [] \<and>
           \<not> is_space (last (fst (last demo_chunks)))"
    by (simp add: demo_chunks_def is_space_def)
  have d: "fst (run_pipeline demo_pipeline demo_query 3 demo_kwargs []) = Inr demo_result"
    by (simp add: demo_run)
  have u: "user (prompts_used demo_result) =
     user_text
       (''[Source 1]: U-6 players are absorbed in play. \<newline>\<newline>'' @
        ''[Source 2]: Coaches of the U-6 age group vary activities.\<newline>\<newline>'' @
        ''[Source 3]: U-8 players begin to look to pass.'')
       ''3''
       ''Relevance scores: Source 1: 0.637, Source 2: 0.614, Source 3: 0.610''
       demo_query"
    by (simp add: demo_result_def demo_prompts_def)
  show ?thesis
    using user_message_contents [OF r, of demo_kwargs "[]"] r c d u
    unfolding Let_def by blast
qed

subsection \<open>Calls to the LLM\<close>

fun llm_calls :: "event list \<Rightarrow> string list list" where
  "llm_calls [] = []"
| "llm_calls (SearchByText query_text k # es) = llm_calls es"
| "llm_calls (LlmRun messages # es) = messages # llm_calls es"

lemma llm_calls_append: "llm_calls (xs @ ys) = llm_calls xs @ llm_calls ys"
  by (induction xs rule: llm_calls.induct) auto

text \<open>
  C7, as stated, fails: in a run whose retrieval fails the LLM is called zero times.
\<close>

theorem llm_called_once_counterexample:
  "fst (run_pipeline no_embedding_pipeline demo_query 3 demo_kwargs []) = Inl EmbeddingError \<and>
   llm_calls (snd (run_pipeline no_embedding_pipeline demo_query 3 demo_kwargs [])) = []"
  by (simp add: run_pipeline_eq no_embedding_pipeline_def)

text \<open>
  C7, amended. In a run whose retrieval returns, the LLM is called exactly once, with
  the two-element list of the rendered system message and the rendered user message,
  and \<open>prompts_used\<close> of a returned result holds those two strings; the response of the
  result is what that call returned. In a run whose retrieval fails, the LLM is not
  called.
\<close>

theorem llm_called_once:
  "(vector_db_retriever self q k = Inr cs \<longrightarrow>
      llm_calls (snd (run_pipeline self q k kw tr)) =
        llm_calls tr @ [[system_message self kw, user_message self q cs]] \<and>
      (\<forall>res. fst (run_pipeline self q k kw tr) = Inr res \<longrightarrow>
         prompts_used res =
           \<lparr>system = system_message self kw, user = user_message self q cs\<rparr> \<and>
         llm self [system (prompts_used res), user (prompts_used res)] = Inr (response res))) \<and>
   (vector_db_retriever self q k = Inl e \<longrightarrow>
      llm_calls (snd (run_pipeline self q k kw tr)) = llm_calls tr)"
  unfolding run_pipeline_eq
  by (auto simp: llm_calls_append split: sum.splits)

theorem llm_called_once_witness:
  "vector_db_retriever demo_pipeline demo_query 3 = Inr demo_chunks \<and>
   fst (run_pipeline demo_pipeline demo_query 3 demo_kwargs []) = Inr demo_result \<and>
   llm_calls (snd (run_pipeline demo_pipeline demo_query 3 demo_kwargs [])) =
     [[system demo_prompts, user demo_prompts]] \<and>
   prompts_used demo_result = demo_prompts \<and>
   llm demo_pipeline [system (prompts_used demo_result), user (prompts_used demo_result)] =
     Inr (response demo_result) \<and>
   vector_db_retriever no_embedding_pipeline demo_query 3 = Inl EmbeddingError \<and>
   llm_calls (snd (run_pipeline no_embedding_pipeline demo_query 3 demo_kwargs [])) = []"
proof -
  have r: "vector_db_retriever demo_pipeline demo_query 3 = Inr demo_chunks"
    by (simp add: demo_pipeline_def demo_chunks_def)
  have a: "vector_db_retriever no_embedding_pipeline demo_query 3 = Inl EmbeddingError"
    by (simp add: no_embedding_pipeline_def)
  have p: "prompts_used demo_result = demo_prompts"
    by (simp add: demo_result_def)
  show ?thesis
    using llm_called_once [of demo_pipeline demo_query 3 demo_chunks demo_kwargs "[]" EmbeddingError]
          llm_called_once [of no_embedding_pipeline demo_query 3 demo_chunks demo_kwargs "[]"
            EmbeddingError]
          r a p demo_run
    by (auto simp: demo_trace_def)
qed

subsection \<open>Empty retrieval\<close>

definition dont_know_instruction :: string where
  \<open>dont_know_instruction =
     ''- If the context doesn't contain relevant information, respond with "I don't know"''\<close>

definition silent_pipeline :: pipeline where
  "silent_pipeline =
     \<lparr>llm = (\<lambda>messages. Inl GenerationError),
      vector_db_retriever = (\<lambda>query_text k. Inr []),
      response_style = ''detailed'',
      include_scores = False\<rparr>"

lemma system_text_instruction: "sublist dont_know_instruction (system_text style len)"
proof -
  have "system_text style len =
    (''You are a knowledgeable assistant that answers questions based strictly on provided context.\<newline>'' @
     ''\<newline>'' @
     ''Instructions:\<newline>'' @
     ''- Only answer questions using information from the provided context\<newline>'') @
    dont_know_instruction @
    (''\<newline>'' @
     ''- Be accurate and cite specific parts of the context when possible\<newline>'' @
     ''- Keep responses '' @ style @ '' and '' @ len @ ''\<newline>'' @
     ''- Only use the provided context. Do not use external knowledge.\<newline>'' @
     ''- Only provide answers when you are confident the context supports your response.'')"
    by (simp add: system_text_def dont_know_instruction_def)
  then show ?thesis
    by (simp only: sublist_appendI)
qed

lemma user_message_empty:
  "user_message self q [] =
     user_text '''' ''0'' (if include_scores self then ''Relevance scores: '' else '''') q"
  by (simp add: eval_simps)

text \<open>
  C5, as stated, fails: retrieval returns no chunk and the run raises the error of the
  LLM call.
\<close>

theorem empty_retrieval_counterexample:
  "vector_db_retriever silent_pipeline demo_query 4 = Inr [] \<and>
   fst (run_pipeline silent_pipeline demo_query 4 Map.empty []) = Inl GenerationError"
  by (simp add: run_pipeline_eq silent_pipeline_def)

text \<open>
  C5, amended. When retrieval returns no chunk the run raises no error of its own:
  both templates render and are handed to the LLM, the user message with an empty
  context block and the count 0, the system message with the instruction to answer
  \<open>I don't know\<close>. The outcome is then the outcome of the LLM call: its error, or a
  result with \<open>context_count = 0\<close> and an empty \<open>context_list\<close>.
\<close>

theorem empty_retrieval:
  assumes "vector_db_retriever self q k = Inr []"
  shows "snd (run_pipeline self q k kw tr) =
           tr @ [SearchByText q k,
                 LlmRun [system_message self kw,
                         user_text '''' ''0''
                           (if include_scores self then ''Relevance scores: '' else '''') q]] \<and>
         sublist dont_know_instruction (system_message self kw) \<and>
         fst (run_pipeline self q k kw tr) =
           (case llm self [system_message self kw,
                           user_text '''' ''0''
                             (if include_scores self then ''Relevance scores: '' else '''') q] of
              Inl e \<Rightarrow> Inl e
            | Inr r \<Rightarrow>
                Inr \<lparr>response = r, context_list = [], context_count = 0,
                     similarity_scores = (if include_scores self then Some [] else None),
                     prompts_used =
                       \<lparr>system = system_message self kw,
                        user = user_text '''' ''0''
                                 (if include_scores self then ''Relevance scores: '' else '''')
                                 q\<rparr>\<rparr>)"
proof -
  have i: "sublist dont_know_instruction (system_message self kw)"
    unfolding system_message_def by (rule system_text_instruction)
  show ?thesis
    unfolding run_pipeline_eq assms
    by (simp only: sum.case user_message_empty i)
       (simp add: score_strings_def split: sum.splits)
qed

theorem empty_retrieval_witness:
  "vector_db_retriever demo_pipeline demo_query 0 = Inr [] \<and>
   sublist dont_know_instruction (system_message demo_pipeline demo_kwargs) \<and>
   fst (run_pipeline demo_pipeline demo_query 0 demo_kwargs []) =
     Inr \<lparr>response = ''The differences revolve around developmental stages.'',
          context_list = [], context_count = 0, similarity_scores = Some [],
          prompts_used =
            \<lparr>system = system_text ''detailed'' ''comprehensive'',
             user = user_text '''' ''0'' ''Relevance scores: '' demo_query\<rparr>\<rparr>"
proof -
  have r: "vector_db_retriever demo_pipeline demo_query 0 = Inr []"
    by (simp add: demo_pipeline_def)
  have s: "system_message demo_pipeline demo_kwargs = system_text ''detailed'' ''comprehensive''"
    by (simp add: system_message_def response_length_of_def demo_pipeline_def demo_kwargs_def)
  have l: "llm demo_pipeline msgs = Inr ''The differences revolve around developmental stages.''"
    for msgs
    by (simp add: demo_pipeline_def)
  have i: "include_scores demo_pipeline"
    by (simp add: demo_pipeline_def)
  show ?thesis
    using empty_retrieval [OF r, of demo_kwargs "[]"] r
    by (simp only: s l i sum.case if_True)
qed

section \<open>The text chunker\<close>

text \<open>
  \<^verbatim>\<open>CharacterTextSplitter\<close> comes from the package \<^verbatim>\<open>aimakerspace.text_utils\<close>, which
  the notebook imports and which is not among the sources.
\<close>

text \<open>Modelled from the spec: a document is raw text with an identifier (section 3).\<close>

record document =
  doc_id :: string
  doc_text :: string

text \<open>
  Modelled from the spec: a chunk is a span of a document, with its text, the
  identifier of the document, its offset there and its length (section 3).
\<close>

record chunk =
  chunk_text :: string
  source_id :: string
  offset :: nat
  chunk_length :: nat

text \<open>
  Modelled from the spec: the windows of one document (section 4.1). Windows of
  \<open>chunk_size\<close> characters start at 0 and advance by \<open>step\<close>; the first window that
  the rest of the text no longer fills is the final window, shorter than
  \<open>chunk_size\<close>, and is emitted if it is not empty. So every window but the final one
  has \<open>chunk_size\<close> characters, and a document shorter than \<open>chunk_size\<close> is one
  chunk, as the edge case of section 4.1 requires. Both \<open>chunk_size\<close> and \<open>step\<close> are
  positive whenever \<open>split\<close> calls.
\<close>

function windows :: "nat \<Rightarrow> nat \<Rightarrow> string \<Rightarrow> nat \<Rightarrow> (nat \<times> string) list" where
  "windows chunk_size step txt off =
     (if 0 < chunk_size \<and> 0 < step \<and> off + chunk_size \<le> length txt
      then (off, take chunk_size (drop off txt)) # windows chunk_size step txt (off + step)
      else if off < length txt then [(off, drop off txt)] else [])"
  by pat_completeness auto
termination
  by (relation "measure (\<lambda>(chunk_size, step, txt, off). length txt - off)") auto

declare windows.simps [simp del]

text \<open>
  Modelled from the spec: \<^verbatim>\<open>TextChunker.split\<close> (section 4.1). It fails with
  \<open>InvalidConfig\<close> if \<open>chunk_size \<le> 0\<close> or \<open>overlap \<ge> chunk_size\<close>; otherwise the
  chunks of the documents follow one another in document order.
\<close>

definition split :: "document list \<Rightarrow> int \<Rightarrow> int \<Rightarrow> error + chunk list" where
  "split documents chunk_size overlap =
     (if chunk_size \<le> 0 \<or> chunk_size \<le> overlap then Inl InvalidConfig
      else Inr (concat (map (\<lambda>d.
             map (\<lambda>(off, w). \<lparr>chunk_text = w, source_id = doc_id d, offset = off,
                               chunk_length = length w\<rparr>)
               (windows (nat chunk_size) (nat (chunk_size - overlap)) (doc_text d) 0))
           documents)))"

section \<open>The vector store\<close>

text \<open>
  \<^verbatim>\<open>VectorDatabase\<close> comes from the package \<^verbatim>\<open>aimakerspace.vectordatabase\<close>, which the
  notebook imports and which is not among the sources. Similarities are modelled as
  real numbers: the rounding of floating-point arithmetic is outside the model.
\<close>

type_synonym embedding_vector = "real list"

text \<open>Modelled from the spec: an index entry pairs a chunk with its vector, under a key (section 3).\<close>

record index_entry =
  entry_key :: string
  entry_chunk :: chunk
  entry_vector :: embedding_vector

text \<open>
  Modelled from the spec: the store keeps its entries in insertion order (section 3).
\<close>

record vector_store =
  entries :: "index_entry list"

text \<open>Modelled from the spec: the dot product of section 4.2.\<close>

definition dot :: "embedding_vector \<Rightarrow> embedding_vector \<Rightarrow> real" where
  "dot a b = sum_list (map (\<lambda>(x, y). x * y) (zip a b))"

text \<open>Modelled from the spec: the magnitude of a vector (section 4.2).\<close>

definition magnitude :: "embedding_vector \<Rightarrow> real" where
  "magnitude a = sqrt (dot a a)"

text \<open>
  Modelled from the spec: cosine similarity (section 4.2),
  \<open>dot(a, b) / (magnitude a * magnitude b)\<close>. Where either vector has zero magnitude
  the specification asks for one consistent choice between the two it names, failing
  and the similarity 0; the model makes the second, so similarity is always a number.
\<close>

definition cosine_similarity :: "embedding_vector \<Rightarrow> embedding_vector \<Rightarrow> real" where
  "cosine_similarity a b =
     (if magnitude a = 0 \<or> magnitude b = 0 then 0
      else dot a b / (magnitude a * magnitude b))"

text \<open>
  Modelled from the spec: the similarity of the query with every stored vector
  (section 4.2), in insertion order.
\<close>

definition score_entries :: "embedding_vector \<Rightarrow> index_entry list \<Rightarrow> (chunk \<times> real) list" where
  "score_entries query_vector es =
     map (\<lambda>e. (entry_chunk e, cosine_similarity query_vector (entry_vector e))) es"

text \<open>
  Modelled from the spec: \<^verbatim>\<open>VectorStore.search\<close> (section 4.2). It fails with
  \<open>EmptyStoreError\<close> on a store without entries; otherwise it scores every entry,
  sorts by similarity, highest first, entries of equal similarity staying in
  insertion order (\<open>sort_key\<close> is a stable insertion sort), and returns the first \<open>k\<close>.
\<close>

definition search :: "vector_store \<Rightarrow> embedding_vector \<Rightarrow> int \<Rightarrow> error + (chunk \<times> real) list" where
  "search store query_vector k =
     (if entries store = [] then Inl EmptyStoreError
      else Inr (take (nat k) (sort_key (\<lambda>sc. - snd sc) (score_entries query_vector (entries store)))))"

subsection \<open>Chunking a document of 250 characters\<close>

text \<open>
  The edge case of section 4.1: a document shorter than \<open>chunk_size\<close>, and not empty,
  gives one chunk, the whole document.
\<close>

lemma split_short_document:
  assumes "doc_text d \<noteq> []" and "int (length (doc_text d)) < chunk_size"
    and "overlap < chunk_size"
  shows "split [d] chunk_size overlap =
           Inr [\<lparr>chunk_text = doc_text d, source_id = doc_id d, offset = 0,
                 chunk_length = length (doc_text d)\<rparr>]"
proof -
  have "windows (nat chunk_size) (nat (chunk_size - overlap)) (doc_text d) 0 = [(0, doc_text d)]"
    using assms by (simp add: windows.simps [of _ _ _ 0])
  then show ?thesis
    using assms by (simp add: split_def)
qed

lemma split_invalid_config:
  "chunk_size \<le> 0 \<or> chunk_size \<le> overlap \<Longrightarrow> split ds chunk_size overlap = Inl InvalidConfig"
  by (simp add: split_def)

definition sample_document :: document where
  "sample_document = \<lparr>doc_id = ''manual'', doc_text = replicate 250 (CHR ''a'')\<rparr>"

text \<open>
  C8. A document of 250 characters, split with \<open>chunk_size = 100\<close> and \<open>overlap = 20\<close>,
  gives exactly three chunks: the windows at offsets 0, 80 and 160, of 100, 100 and 90
  characters; each chunk starts with the last 20 characters of the one before.
\<close>

theorem split_250:
  assumes "length (doc_text d) = 250"
  shows "split [d] 100 20 =
           Inr [\<lparr>chunk_text = take 100 (doc_text d), source_id = doc_id d,
                 offset = 0, chunk_length = 100\<rparr>,
                \<lparr>chunk_text = take 100 (drop 80 (doc_text d)), source_id = doc_id d,
                 offset = 80, chunk_length = 100\<rparr>,
                \<lparr>chunk_text = drop 160 (doc_text d), source_id = doc_id d,
                 offset = 160, chunk_length = 90\<rparr>] \<and>
         drop 80 (take 100 (doc_text d)) = take 20 (take 100 (drop 80 (doc_text d))) \<and>
         drop 80 (take 100 (drop 80 (doc_text d))) = take 20 (drop 160 (doc_text d))"
proof -
  have w: "windows 100 80 (doc_text d) 0 =
             [(0, take 100 (doc_text d)), (80, take 100 (drop 80 (doc_text d))),
              (160, drop 160 (doc_text d))]"
    using assms
    by (simp add: windows.simps [of 100 80 "doc_text d" 0]
          windows.simps [of 100 80 "doc_text d" 80] windows.simps [of 100 80 "doc_text d" 160])
  have o: "drop 80 (take 100 (doc_text d)) = take 20 (take 100 (drop 80 (doc_text d)))"
          "drop 80 (take 100 (drop 80 (doc_text d))) = take 20 (drop 160 (doc_text d))"
    by (simp_all add: drop_take)
  show ?thesis
    using assms o by (simp add: split_def w)
qed

theorem split_250_witness:
  "length (doc_text sample_document) = 250 \<and>
   map chunk_length (projr (split [sample_document] 100 20)) = [100, 100, 90] \<and>
   map offset (projr (split [sample_document] 100 20)) = [0, 80, 160]"
proof -
  have l: "length (doc_text sample_document) = 250"
    by (simp add: sample_document_def)
  show ?thesis
    using split_250 [OF l] l by simp
qed

subsection \<open>Searching a store\<close>

lemma search_empty_store: "entries store = [] \<Longrightarrow> search store q k = Inl EmptyStoreError"
  by (simp add: search_def)

lemma descending_sort_key:
  "sorted_wrt (\<lambda>a b. snd b \<le> snd a) (sort_key (\<lambda>sc. - snd sc) (xs :: ('a \<times> real) list))"
  using sorted_sort_key [of "\<lambda>sc. - snd sc" xs] by (simp add: sorted_map)

lemma count_list_insort_key: "count_list (insort_key f a xs) x = count_list (a # xs) x"
  by (induction xs) auto

lemma count_list_sort_key: "count_list (sort_key f xs) x = count_list xs x"
  by (induction xs) (auto simp: count_list_insort_key)

definition alpha_chunk :: chunk where
  "alpha_chunk = \<lparr>chunk_text = ''alpha'', source_id = ''manual'', offset = 0, chunk_length = 5\<rparr>"

definition beta_chunk :: chunk where
  "beta_chunk = \<lparr>chunk_text = ''beta'', source_id = ''manual'', offset = 5, chunk_length = 4\<rparr>"

definition gamma_chunk :: chunk where
  "gamma_chunk = \<lparr>chunk_text = ''gamma'', source_id = ''manual'', offset = 9, chunk_length = 5\<rparr>"

text \<open>Three entries; the vector of the third has zero magnitude.\<close>

definition sample_store :: vector_store where
  "sample_store =
     \<lparr>entries =
        [\<lparr>entry_key = ''alpha'', entry_chunk = alpha_chunk, entry_vector = [0, 1]\<rparr>,
         \<lparr>entry_key = ''beta'', entry_chunk = beta_chunk, entry_vector = [1, 0]\<rparr>,
         \<lparr>entry_key = ''gamma'', entry_chunk = gamma_chunk, entry_vector = [0, 0]\<rparr>]\<rparr>"

lemmas store_simps =
  search_def score_entries_def cosine_similarity_def magnitude_def dot_def sample_store_def

text \<open>
  C1. On a store with at least one entry and for \<open>k > 0\<close> the search returns
  \<open>min k n\<close> scored chunks, \<open>n\<close> the number of entries: never more than \<open>k\<close>, never
  more than \<open>n\<close>, in descending order of similarity. Together with the entries left
  out they are the stored chunks, each once for every time it is stored and each with
  its cosine similarity to the query, and no entry left out has a higher similarity
  than one returned.
\<close>

theorem search_top_k:
  assumes "entries store \<noteq> []" and "0 < k"
  shows "\<exists>r. search store q k = Inr r \<and>
              length r = min (nat k) (length (entries store)) \<and>
              length r \<le> nat k \<and> length r \<le> length (entries store) \<and>
              (\<forall>i. Suc i < length r \<longrightarrow> snd (r ! Suc i) \<le> snd (r ! i)) \<and>
              (\<exists>rest.
                 (\<forall>x. count_list (r @ rest) x =
                        count_list (map (\<lambda>e. (entry_chunk e, cosine_similarity q (entry_vector e)))
                                      (entries store)) x) \<and>
                 (\<forall>x\<in>set r. \<forall>y\<in>set rest. snd y \<le> snd x))"
proof -
  let ?scored = "map (\<lambda>e. (entry_chunk e, cosine_similarity q (entry_vector e))) (entries store)"
  let ?s = "sort_key (\<lambda>sc. - snd sc) ?scored"
  let ?r = "take (nat k) ?s"
  let ?rest = "drop (nat k) ?s"
  have res: "search store q k = Inr ?r"
    using assms(1) by (simp add: search_def score_entries_def)
  have len: "length ?r = min (nat k) (length (entries store))"
    by simp
  have whole: "sorted_wrt (\<lambda>a b. snd b \<le> snd a) (?r @ ?rest)"
    using descending_sort_key [of ?scored] by simp
  then have sorted: "sorted_wrt (\<lambda>a b. snd b \<le> snd a) ?r"
    and above: "\<forall>x\<in>set ?r. \<forall>y\<in>set ?rest. snd y \<le> snd x"
    unfolding sorted_wrt_append by blast+
  have adj: "\<forall>i. Suc i < length ?r \<longrightarrow> snd (?r ! Suc i) \<le> snd (?r ! i)"
    using sorted_wrt_nth_less [OF sorted] by blast
  have cnt: "\<forall>x. count_list (?r @ ?rest) x = count_list ?scored x"
    by (simp add: count_list_sort_key)
  have "length ?r = min (nat k) (length (entries store)) \<and>
        length ?r \<le> nat k \<and> length ?r \<le> length (entries store) \<and>
        (\<forall>i. Suc i < length ?r \<longrightarrow> snd (?r ! Suc i) \<le> snd (?r ! i)) \<and>
        (\<exists>rest. (\<forall>x. count_list (?r @ rest) x = count_list ?scored x) \<and>
                (\<forall>x\<in>set ?r. \<forall>y\<in>set rest. snd y \<le> snd x))"
    using len adj cnt above by (intro conjI exI [of _ ?rest]) simp_all
  with res show ?thesis by blast
qed

theorem search_top_k_witness:
  "entries sample_store \<noteq> [] \<and> (0 :: int) < 2 \<and>
   search sample_store [1, 0] 2 = Inr [(beta_chunk, 1), (alpha_chunk, 0)] \<and>
   length (projr (search sample_store [1, 0] 2)) = min (nat 2) (length (entries sample_store)) \<and>
   length (entries sample_store) = 3"
proof -
  have a: "entries sample_store \<noteq> []"
    by (simp add: store_simps)
  have k: "(0 :: int) < 2"
    by simp
  have s: "search sample_store [1, 0] 2 = Inr [(beta_chunk, 1), (alpha_chunk, 0)]"
    by (simp add: store_simps)
  from search_top_k [OF a k, of "[1, 0]"]
  have "length (projr (search sample_store [1, 0] 2)) = min (nat 2) (length (entries sample_store))"
    by auto
  then show ?thesis
    using a k s by (simp add: sample_store_def)
qed

end
